theory Spec2Isabelle
  imports Complex_Main "HOL-Library.AList"
begin

section \<open>Wallet risk scoring and transaction-graph clustering\<close>

text \<open>
  A shallow embedding of \<^verbatim>\<open>src/app/risk-factors.ts\<close>, of the threat-intelligence
  aggregation in \<^verbatim>\<open>src/app/threat-intelligence-config.ts\<close> and of
  \<^verbatim>\<open>FreeThreatAnalyzer\<close>.

  Conventions of the embedding:
  \<^item> a JavaScript \<^verbatim>\<open>number\<close> that holds an amount or a confidence is a \<^typ>\<open>real\<close>
    (IEEE rounding, \<^verbatim>\<open>NaN\<close> and the infinities are outside the model); a number that
    holds a count, a weight, a gas figure or a millisecond timestamp is an \<^typ>\<open>int\<close>;
  \<^item> an optional field is an \<^typ>\<open>'a option\<close>;
  \<^item> a \<^verbatim>\<open>Record<string, T>\<close> whose keys or values the code enumerates is an
    association list in insertion order, read with \<^const>\<open>map_of\<close> and written with
    \<^const>\<open>AList.update\<close>; one that is only read by key is a map, and one that only holds
    \<^verbatim>\<open>true\<close> is the set of its keys. Keys are taken not to collide with the properties
    every object inherits from \<^verbatim>\<open>Object.prototype\<close> (such as \<^verbatim>\<open>constructor\<close>): wallet
    addresses are hexadecimal strings;
  \<^item> \<^verbatim>\<open>Date.now()\<close> reads a wall clock: the clock is a function from the number of
    readings made so far to the value read, and every function that reads it takes the
    number of readings made so far and returns it updated;
  \<^item> a thrown \<^verbatim>\<open>TypeError\<close> is the left injection of a sum type.
\<close>

subsection \<open>Data model (\<^verbatim>\<open>page.tsx\<close>)\<close>

datatype Direction = incoming | outgoing

record Transaction =
  hash :: string
  type :: Direction
  token :: string
  amount :: real
  counterparty :: string
  timestamp :: int
  gasUsed :: int
  contractAddress :: "string option"
  from_address :: "string option"
  to_address :: "string option"

record TokenBalance =
  symbol :: string
  balance :: string
  balance_value :: string
  token_contractAddress :: "string option"
  decimals :: "int option"

record Metrics =
  totalTransactions :: int
  totalGasSpent :: string
  uniqueCounterparties :: int
  activeDays :: int
  contractsInteracted :: int

datatype RiskLevel = low | medium | high | critical

record WalletData =
  address :: string
  transactions :: "Transaction list"
  tokenBalances :: "TokenBalance list"
  metrics :: Metrics
  riskScore :: int
  riskLevel :: RiskLevel
  wallet_contractsInteracted :: "string list"
  riskBreakdown :: "(string \<times> string) list option"

subsection \<open>The wall clock\<close>

type_synonym clock = "nat \<Rightarrow> int"

definition Date_now :: "clock \<Rightarrow> nat \<Rightarrow> int \<times> nat" where
  "Date_now clk t = (clk t, Suc t)"

text \<open>
  \<^verbatim>\<open>new Date(ms).getUTCHours()\<close>: a time value beyond \<open>\<plusminus>8.64e15\<close> ms is an invalid
  date, whose hour is \<^verbatim>\<open>NaN\<close> (here \<^const>\<open>None\<close>); every comparison with it is false.
\<close>

definition getUTCHours :: "int \<Rightarrow> int option" where
  "getUTCHours ms =
     (if \<bar>ms\<bar> \<le> 8640000000000000 then Some ((ms div 3600000) mod 24) else None)"

subsection \<open>Risk factor evaluators (\<^verbatim>\<open>risk-factors.ts\<close>)\<close>

definition MIXER_ADDRESSES :: "string list" where
  "MIXER_ADDRESSES = []"

definition SCAM_CONTRACTS :: "string list" where
  "SCAM_CONTRACTS = []"

definition BLACKLISTED_ADDRESSES :: "string list" where
  "BLACKLISTED_ADDRESSES = []"

definition SCAM_TOKENS :: "string list" where
  "SCAM_TOKENS = []"

text \<open>\<^verbatim>\<open>tx.contractAddress || ""\<close>\<close>

definition contractAddress_or_empty :: "Transaction \<Rightarrow> string" where
  "contractAddress_or_empty tx = (case contractAddress tx of None \<Rightarrow> [] | Some a \<Rightarrow> a)"

definition checkHighFrequency :: "clock \<Rightarrow> nat \<Rightarrow> Transaction list \<Rightarrow> int \<times> nat" where
  "checkHighFrequency clk t txs =
     (let (now, t') = Date_now clk t;
          oneHourAgo = now - 60 * 60 * 1000;
          recentTxs = filter (\<lambda>tx. timestamp tx > oneHourAgo) txs
      in (if length recentTxs > 10 then 20 else 0, t'))"

definition checkMixerUsage :: "Transaction list \<Rightarrow> int" where
  "checkMixerUsage txs =
     (if list_ex (\<lambda>tx. contractAddress_or_empty tx \<in> set MIXER_ADDRESSES) txs
      then 30 else 0)"

definition checkScamContractInteraction :: "Transaction list \<Rightarrow> int" where
  "checkScamContractInteraction txs =
     (if list_ex (\<lambda>tx. contractAddress_or_empty tx \<in> set SCAM_CONTRACTS) txs
      then 30 else 0)"

definition checkAbnormalGas :: "Transaction list \<Rightarrow> int" where
  "checkAbnormalGas txs = (if list_ex (\<lambda>tx. gasUsed tx > 1000000) txs then 10 else 0)"

definition checkReceivedFromBlacklist :: "Transaction list \<Rightarrow> int" where
  "checkReceivedFromBlacklist txs =
     (if list_ex (\<lambda>tx. type tx = incoming \<and> counterparty tx \<in> set BLACKLISTED_ADDRESSES) txs
      then 40 else 0)"

definition checkSentToBlacklist :: "Transaction list \<Rightarrow> int" where
  "checkSentToBlacklist txs =
     (if list_ex (\<lambda>tx. type tx = outgoing \<and> counterparty tx \<in> set BLACKLISTED_ADDRESSES) txs
      then 40 else 0)"

definition checkFaucetOnly :: "Transaction list \<Rightarrow> int" where
  "checkFaucetOnly txs = 0"

definition checkScamTokens :: "TokenBalance list \<Rightarrow> int" where
  "checkScamTokens tbs =
     (if list_ex (\<lambda>tok. symbol tok \<in> set SCAM_TOKENS) tbs then 20 else 0)"

definition checkLargeInflowOutflow :: "Transaction list \<Rightarrow> int" where
  "checkLargeInflowOutflow txs = (if list_ex (\<lambda>tx. amount tx > 10000) txs then 15 else 0)"

text \<open>
  \<^verbatim>\<open>transactions.reduce((min, tx) => (tx.timestamp < min ? tx.timestamp : min), init)\<close>
\<close>

definition earliest_timestamp :: "int \<Rightarrow> Transaction list \<Rightarrow> int" where
  "earliest_timestamp init txs =
     foldl (\<lambda>m tx. if timestamp tx < m then timestamp tx else m) init txs"

definition checkWalletAge :: "clock \<Rightarrow> nat \<Rightarrow> Metrics \<Rightarrow> Transaction list \<Rightarrow> int \<times> nat" where
  "checkWalletAge clk t m txs =
     (case txs of
        [] \<Rightarrow> (0, t)
      | tx0 # _ \<Rightarrow>
          (let firstTx = earliest_timestamp (timestamp tx0) txs;
               (now, t') = Date_now clk t;
               ageDays = real_of_int (now - firstTx) / (1000 * 60 * 60 * 24)
           in (if ageDays < 7 then 20 else 0, t')))"

definition checkTotalTransactions :: "Metrics \<Rightarrow> int" where
  "checkTotalTransactions m = (if totalTransactions m > 200 then 10 else 0)"

definition checkSocialLinks :: int where
  "checkSocialLinks = 0"

definition checkOGNFTs :: int where
  "checkOGNFTs = 0"

text \<open>\<^verbatim>\<open>[tx.counterparty, tx.type].join(":")\<close> and \<^verbatim>\<open>key.split(":")[0]\<close>\<close>

definition Direction_string :: "Direction \<Rightarrow> string" where
  "Direction_string d = (case d of incoming \<Rightarrow> ''incoming'' | outgoing \<Rightarrow> ''outgoing'')"

definition pair_key :: "Transaction \<Rightarrow> string" where
  "pair_key tx = counterparty tx @ '':'' @ Direction_string (type tx)"

definition split_first :: "string \<Rightarrow> string" where
  "split_first key = takeWhile (\<lambda>c. c \<noteq> CHR '':'') key"

text \<open>\<^verbatim>\<open>pairCounts[key] || 0\<close>\<close>

definition count_or_zero :: "(string \<times> int) list \<Rightarrow> string \<Rightarrow> int" where
  "count_or_zero pairCounts key = (case map_of pairCounts key of None \<Rightarrow> 0 | Some c \<Rightarrow> c)"

definition count_pair :: "Transaction \<Rightarrow> (string \<times> int) list \<Rightarrow> (string \<times> int) list" where
  "count_pair tx pairCounts =
     (if counterparty tx = [] then pairCounts
      else AList.update (pair_key tx) (count_or_zero pairCounts (pair_key tx) + 1) pairCounts)"

definition checkWashTrading :: "Transaction list \<Rightarrow> int" where
  "checkWashTrading txs =
     (let pairCounts = fold count_pair txs [];
          suspicious =
            list_ex (\<lambda>key.
               let cp = split_first key;
                   inKey = cp @ '':incoming'';
                   outKey = cp @ '':outgoing''
               in count_or_zero pairCounts inKey > 3 \<and> count_or_zero pairCounts outKey > 3)
              (map fst pairCounts)
      in if suspicious then 25 else 0)"

definition group_tx :: "Transaction \<Rightarrow> (string \<times> Transaction list) list
    \<Rightarrow> (string \<times> Transaction list) list" where
  "group_tx tx txByCounterparty =
     (if counterparty tx = [] then txByCounterparty
      else (case map_of txByCounterparty (counterparty tx) of
              None \<Rightarrow> AList.update (counterparty tx) [tx] txByCounterparty
            | Some ts \<Rightarrow> AList.update (counterparty tx) (ts @ [tx]) txByCounterparty))"

definition circular_pair :: "Transaction \<Rightarrow> Transaction \<Rightarrow> bool" where
  "circular_pair inc out =
     (\<bar>timestamp inc - timestamp out\<bar> < 1000 * 60 * 60 * 24
      \<and> \<bar>amount inc - amount out\<bar> < 1 / 10000)"

definition checkCircularTransactions :: "Transaction list \<Rightarrow> int" where
  "checkCircularTransactions txs =
     (let txByCounterparty = fold group_tx txs [];
          found =
            list_ex (\<lambda>ts.
               let ins = filter (\<lambda>t. type t = incoming) ts;
                   outs = filter (\<lambda>t. type t = outgoing) ts
               in list_ex (\<lambda>inc. list_ex (\<lambda>out. circular_pair inc out) outs) ins)
              (map snd txByCounterparty)
      in if found then 25 else 0)"

definition odd_hour :: "Transaction \<Rightarrow> bool" where
  "odd_hour tx = (case getUTCHours (timestamp tx) of None \<Rightarrow> False | Some h \<Rightarrow> h \<ge> 2 \<and> h \<le> 5)"

definition checkAnomalies :: "Transaction list \<Rightarrow> int" where
  "checkAnomalies txs =
     (if length txs < 5 then 0
      else
        (let amounts = sort (map amount txs);
             median = amounts ! (length amounts div 2);
             largeTx = list_ex (\<lambda>tx. amount tx > median * 10) txs;
             oddHourTxs = filter odd_hour txs
         in if largeTx \<or> length oddHourTxs > 3 then 15 else 0))"

record RiskResult =
  score :: int
  breakdown :: "(string \<times> int) list"

definition aggregateRiskFactors :: "clock \<Rightarrow> nat \<Rightarrow> WalletData \<Rightarrow> RiskResult \<times> nat" where
  "aggregateRiskFactors clk t walletData =
     (let txs = transactions walletData;
          tbs = tokenBalances walletData;
          m = metrics walletData;
          (hf, t1) = checkHighFrequency clk t txs;
          (wa, t2) = checkWalletAge clk t1 m txs;
          bd = [(''highFrequency'', hf),
                (''mixerUsage'', checkMixerUsage txs),
                (''scamContract'', checkScamContractInteraction txs),
                (''abnormalGas'', checkAbnormalGas txs),
                (''receivedFromBlacklist'', checkReceivedFromBlacklist txs),
                (''sentToBlacklist'', checkSentToBlacklist txs),
                (''faucetOnly'', checkFaucetOnly txs),
                (''scamTokens'', checkScamTokens tbs),
                (''largeInflowOutflow'', checkLargeInflowOutflow txs),
                (''walletAge'', wa),
                (''totalTransactions'', checkTotalTransactions m),
                (''socialLinks'', checkSocialLinks),
                (''ogNFTs'', checkOGNFTs),
                (''washTrading'', checkWashTrading txs),
                (''circularTransactions'', checkCircularTransactions txs),
                (''anomalies'', checkAnomalies txs)]
      in (\<lparr>score = foldl (+) 0 (map snd bd), breakdown = bd\<rparr>, t2))"


subsection \<open>Transaction clustering (\<^verbatim>\<open>getClusters\<close>, \<^verbatim>\<open>risk-factors.ts\<close>)\<close>






text \<open>
  A JavaScript \<^verbatim>\<open>Set\<close> keeps its members in insertion order: \<^verbatim>\<open>add\<close> appends a value
  that is not a member yet.
\<close>

definition Set_add :: "'a list \<Rightarrow> 'a \<Rightarrow> 'a list" where
  "Set_add s x = (if x \<in> set s then s else s @ [x])"

definition new_Set :: "'a list \<Rightarrow> 'a list" where
  "new_Set xs = foldl Set_add [] xs"

type_synonym adjacency = "(string \<times> string list) list"











subsection \<open>Threat-intelligence aggregation (\<^verbatim>\<open>StarknetThreatIntelligence\<close>)\<close>

record ThreatLevel =
  risk :: RiskLevel
  categories :: "string list"
  confidence :: real
  lastUpdated :: int
  sources :: "string list"

text \<open>\<^verbatim>\<open>Partial<ThreatLevel>\<close>: what one provider returns, every field optional.\<close>

record PartialThreatLevel =
  risk_opt :: "RiskLevel option"
  categories_opt :: "string list option"
  confidence_opt :: "real option"
  lastUpdated_opt :: "int option"
  sources_opt :: "string list option"

text \<open>\<^verbatim>\<open>PromiseSettledResult\<close>: a provider call that returned, or one that threw.\<close>

datatype 'a PromiseSettledResult = fulfilled 'a | rejected string

definition getHighestRisk :: "RiskLevel list \<Rightarrow> RiskLevel" where
  "getHighestRisk risks =
     (if critical \<in> set risks then critical
      else if high \<in> set risks then high
      else if medium \<in> set risks then medium
      else low)"

definition toLowerCase_char :: "char \<Rightarrow> char" where
  "toLowerCase_char c =
     (if (65::nat) \<le> of_char c \<and> of_char c \<le> (90::nat) then char_of (of_char c + (32::nat)) else c)"

definition toLowerCase :: "string \<Rightarrow> string" where
  "toLowerCase s = map toLowerCase_char s"

definition starts_with :: "string \<Rightarrow> string \<Rightarrow> bool" where
  "starts_with s p = (take (length p) s = p)"

text \<open>\<^verbatim>\<open>/^0x0+[1-9a-f]/i\<close>\<close>

definition leading_zeros_pattern :: "string \<Rightarrow> bool" where
  "leading_zeros_pattern a =
     (let s = toLowerCase a;
          body = drop 2 s;
          after = dropWhile (\<lambda>c. c = CHR ''0'') body
      in starts_with s ''0x'' \<and> starts_with body ''0''
         \<and> (case after of [] \<Rightarrow> False | c # _ \<Rightarrow> c \<in> set ''123456789abcdef''))"

text \<open>\<^verbatim>\<open>/^0x(dead|beef|cafe|babe)/i\<close>\<close>

definition vanity_pattern :: "string \<Rightarrow> bool" where
  "vanity_pattern a =
     (let s = toLowerCase a
      in starts_with s ''0xdead'' \<or> starts_with s ''0xbeef''
         \<or> starts_with s ''0xcafe'' \<or> starts_with s ''0xbabe'')"

definition staticRiskCheck :: "string \<Rightarrow> RiskLevel" where
  "staticRiskCheck a = (if leading_zeros_pattern a \<or> vanity_pattern a then medium else low)"

definition getFallbackThreatLevel :: "int \<Rightarrow> string \<Rightarrow> ThreatLevel" where
  "getFallbackThreatLevel now a =
     \<lparr>risk = staticRiskCheck a, categories = [], confidence = 3 / 10, lastUpdated = now,
      sources = [''Static Analysis'']\<rparr>"

definition fulfilled_values :: "'a PromiseSettledResult list \<Rightarrow> 'a list" where
  "fulfilled_values results =
     concat (map (\<lambda>r. case r of fulfilled v \<Rightarrow> [v] | rejected _ \<Rightarrow> []) results)"

definition aggregateThreatData :: "int \<Rightarrow> PartialThreatLevel PromiseSettledResult list \<Rightarrow> string
    \<Rightarrow> ThreatLevel" where
  "aggregateThreatData now results a =
     (let validResults = fulfilled_values results
      in if length validResults = 0 then getFallbackThreatLevel now a
         else
           (let riskLevels = concat (map (\<lambda>r. case risk_opt r of None \<Rightarrow> [] | Some x \<Rightarrow> [x]) validResults);
                highestRisk = getHighestRisk riskLevels;
                allCategories = concat (map (\<lambda>r. case categories_opt r of None \<Rightarrow> [] | Some c \<Rightarrow> c) validResults);
                uniqueCategories = new_Set allCategories;
                confidences = filter (\<lambda>c. c > 0)
                   (map (\<lambda>r. case confidence_opt r of None \<Rightarrow> 0 | Some c \<Rightarrow> c) validResults);
                avgConfidence =
                  (case confidences of
                     [] \<Rightarrow> 0
                   | c # cs \<Rightarrow> foldl (+) c cs / real (length confidences));
                allSources = concat (map (\<lambda>r. case sources_opt r of None \<Rightarrow> [] | Some c \<Rightarrow> c) validResults);
                uniqueSources = new_Set allSources
            in \<lparr>risk = highestRisk, categories = uniqueCategories, confidence = avgConfidence,
                lastUpdated = now, sources = uniqueSources\<rparr>))"

text \<open>The order the claim names: critical above high above medium above low.\<close>

definition tier_rank :: "RiskLevel \<Rightarrow> nat" where
  "tier_rank r = (case r of low \<Rightarrow> 0 | medium \<Rightarrow> 1 | high \<Rightarrow> 2 | critical \<Rightarrow> 3)"

subsection \<open>Combined risk level (\<^verbatim>\<open>EnhancedRiskAnalyzer\<close>, \<^verbatim>\<open>FreeThreatAnalyzer\<close>)\<close>

definition calculateOverallRiskLevel :: "real \<Rightarrow> RiskLevel \<Rightarrow> RiskLevel" where
  "calculateOverallRiskLevel sc threatLevel =
     (if threatLevel = critical \<or> sc \<ge> 80 then critical
      else if threatLevel = high \<or> sc \<ge> 60 then high
      else if sc \<ge> 30 then medium
      else low)"

definition calculateRiskLevel :: "real \<Rightarrow> RiskLevel" where
  "calculateRiskLevel sc =
     (if sc \<ge> 80 then critical
      else if sc \<ge> 60 then high
      else if sc \<ge> 30 then medium
      else low)"

subsection \<open>Free threat analysis (\<^verbatim>\<open>FreeThreatAnalyzer.analyzeAddress\<close>)\<close>

text \<open>
  What the network and the environment hand to one call of \<^verbatim>\<open>analyzeAddress\<close>. An
  awaited request that throws (no connection, a body that is not JSON, a field read on
  \<^verbatim>\<open>null\<close>) is \<^const>\<open>None\<close>; \<open>abuseipdb_cached\<close> is the entry of the checker's cache
  for the address when there is one that has not expired.
\<close>

record AbuseData =
  abuseConfidencePercentage :: real
  usageType :: "string option"

record AbuseCheck =
  isBlacklisted :: bool
  abuse_confidence :: real
  abuse_categories :: "string list"

record ScamData =
  is_scam :: "bool option"
  report_count :: "int option"
  last_reported :: "int option"

record ScamCheck =
  isScam :: bool
  reportCount :: int
  lastReported :: "int option"

record ContractData =
  class_hash :: "string option"
  deployment_tx_hash :: "string option"

record ContractCheck =
  isContract :: bool
  classHash :: "string option"
  deploymentTx :: "string option"

record FreeServices =
  ipBlocklist_response :: "string list option"
  phishingDomains_response :: "string list option"
  darklist_response :: "string list option"
  ABUSEIPDB_API_KEY :: "string option"
  abuseipdb_cached :: "AbuseCheck option"
  abuseipdb_response :: "AbuseData option"
  scamdb_response :: "ScamData option"
  starkscan_response :: "ContractData option"

record ThreatLists =
  maliciousIPs :: "string list"
  phishingDomains :: "string list"
  scamAddresses :: "string list"

text \<open>A string option read as a condition: \<^verbatim>\<open>undefined\<close> and \<^verbatim>\<open>""\<close> are falsy.\<close>

definition truthy :: "string option \<Rightarrow> bool" where
  "truthy s = (case s of None \<Rightarrow> False | Some v \<Rightarrow> v \<noteq> [])"

definition fetchScamAddresses :: "FreeServices \<Rightarrow> string list" where
  "fetchScamAddresses svc = (case darklist_response svc of None \<Rightarrow> [] | Some ks \<Rightarrow> ks)"

definition fetchThreatLists :: "FreeServices \<Rightarrow> ThreatLists" where
  "fetchThreatLists svc =
     (case (ipBlocklist_response svc, phishingDomains_response svc) of
        (Some ipList, Some domainList) \<Rightarrow>
          \<lparr>maliciousIPs = ipList, phishingDomains = domainList,
           scamAddresses = fetchScamAddresses svc\<rparr>
      | _ \<Rightarrow> \<lparr>maliciousIPs = [], phishingDomains = [], scamAddresses = []\<rparr>)"

definition checkWithAbuseIPDB :: "FreeServices \<Rightarrow> string \<Rightarrow> string + AbuseCheck" where
  "checkWithAbuseIPDB svc a =
     (if \<not> truthy (ABUSEIPDB_API_KEY svc) then Inl ''AbuseIPDB API key not configured''
      else
        (case abuseipdb_cached svc of
           Some r \<Rightarrow> Inr r
         | None \<Rightarrow>
             (case abuseipdb_response svc of
                None \<Rightarrow> Inr \<lparr>isBlacklisted = False, abuse_confidence = 0, abuse_categories = []\<rparr>
              | Some d \<Rightarrow>
                  Inr \<lparr>isBlacklisted = abuseConfidencePercentage d > 50,
                       abuse_confidence = abuseConfidencePercentage d / 100,
                       abuse_categories = (if truthy (usageType d) then [the (usageType d)] else [])\<rparr>)))"

definition checkWithScamDatabase :: "FreeServices \<Rightarrow> string \<Rightarrow> ScamCheck" where
  "checkWithScamDatabase svc a =
     (case scamdb_response svc of
        None \<Rightarrow> \<lparr>isScam = False, reportCount = 0, lastReported = None\<rparr>
      | Some d \<Rightarrow>
          \<lparr>isScam = (case is_scam d of None \<Rightarrow> False | Some b \<Rightarrow> b),
           reportCount = (case report_count d of None \<Rightarrow> 0 | Some n \<Rightarrow> n),
           lastReported = last_reported d\<rparr>)"

definition checkStarknetAddress :: "FreeServices \<Rightarrow> string \<Rightarrow> ContractCheck" where
  "checkStarknetAddress svc a =
     (case starkscan_response svc of
        None \<Rightarrow> \<lparr>isContract = False, classHash = None, deploymentTx = None\<rparr>
      | Some d \<Rightarrow>
          \<lparr>isContract = truthy (class_hash d),
           classHash = (if truthy (class_hash d) then class_hash d else None),
           deploymentTx = (if truthy (deployment_tx_hash d) then deployment_tx_hash d else None)\<rparr>)"

text \<open>An integer inside a template string: its decimal digits, most significant first.\<close>

definition digit_char :: "nat \<Rightarrow> char" where
  "digit_char d = ''0123456789'' ! d"

fun decimal_digits :: "nat \<Rightarrow> nat list \<Rightarrow> nat list" where
  "decimal_digits n ds = (if n < 10 then n # ds else decimal_digits (n div 10) (n mod 10 # ds))"

definition Number_toString :: "int \<Rightarrow> string" where
  "Number_toString i =
     (let ds = map digit_char (decimal_digits (nat \<bar>i\<bar>) [])
      in if i < 0 then CHR ''-'' # ds else ds)"

text \<open>\<^verbatim>\<open>Math.round\<close> rounds a half towards positive infinity.\<close>

definition Math_round :: "real \<Rightarrow> int" where
  "Math_round x = \<lfloor>x + 1 / 2\<rfloor>"

text \<open>The four accumulators of \<^verbatim>\<open>analyzeAddress\<close> and one flagged finding.\<close>

record Analysis =
  findings_acc :: "string list"
  sources_acc :: "string list"
  totalRisk :: real
  confidence_acc :: real

definition flag :: "string \<Rightarrow> string \<Rightarrow> real \<Rightarrow> real \<Rightarrow> Analysis \<Rightarrow> Analysis" where
  "flag finding src r c acc =
     \<lparr>findings_acc = findings_acc acc @ [finding], sources_acc = sources_acc acc @ [src],
      totalRisk = totalRisk acc + r, confidence_acc = confidence_acc acc + c\<rparr>"

record Verdict =
  verdict_riskScore :: real
  verdict_riskLevel :: RiskLevel
  verdict_sources :: "string list"
  verdict_findings :: "string list"
  verdict_confidence :: real

text \<open>
  Every collaborator catches what its own request throws, and the one that does throw
  (\<^verbatim>\<open>checkWithAbuseIPDB\<close> without a key) is called inside its own \<^verbatim>\<open>try\<close>: nothing
  reaches the outer \<^verbatim>\<open>catch\<close> of \<^verbatim>\<open>analyzeAddress\<close>, and the function returns a verdict
  on every input.
\<close>

definition analyzeAddress :: "FreeServices \<Rightarrow> string \<Rightarrow> Verdict" where
  "analyzeAddress svc a =
     (let a0 = \<lparr>findings_acc = [], sources_acc = [], totalRisk = 0, confidence_acc = 0\<rparr>;
          threatLists = fetchThreatLists svc;
          a1 = (if toLowerCase a \<in> set (scamAddresses threatLists)
                then flag ''Address found in community scam database'' ''GitHub Community Lists''
                       60 (7 / 10) a0
                else a0);
          a2 = (if truthy (ABUSEIPDB_API_KEY svc)
                then (case checkWithAbuseIPDB svc a of
                        Inl _ \<Rightarrow> a1
                      | Inr abuseCheck \<Rightarrow>
                          if isBlacklisted abuseCheck
                          then flag (''Flagged by AbuseIPDB (''
                                      @ Number_toString (Math_round (abuse_confidence abuseCheck * 100))
                                      @ ''% confidence)'')
                                 ''AbuseIPDB'' (abuse_confidence abuseCheck * 50) (8 / 10) a1
                          else a1)
                else a1);
          scamCheck = checkWithScamDatabase svc a;
          a3 = (if isScam scamCheck
                then flag (''Reported as scam ('' @ Number_toString (reportCount scamCheck) @ '' reports)'')
                       ''Scam Database'' (min (real_of_int (reportCount scamCheck * 10)) 40) (6 / 10) a2
                else a2);
          starknetCheck = checkStarknetAddress svc a;
          a4 = (if isContract starknetCheck \<and> \<not> truthy (classHash starknetCheck)
                then flag ''Unverified contract - exercise caution'' ''Starknet Explorer''
                       15 (4 / 10) a3
                else a3);
          avgConfidence = (if confidence_acc a4 > 0
                           then confidence_acc a4 / real (length (sources_acc a4))
                           else 3 / 10);
          lvl = calculateRiskLevel (totalRisk a4)
      in \<lparr>verdict_riskScore = min (totalRisk a4) 100,
          verdict_riskLevel = lvl,
          verdict_sources = sources_acc a4,
          verdict_findings = (if length (findings_acc a4) > 0 then findings_acc a4
                              else [''No immediate threats detected'']),
          verdict_confidence = avgConfidence\<rparr>)"

subsection \<open>Concrete inputs and the tables the properties are stated with\<close>

text \<open>A clock held fixed for a run, and one that moves between two readings.\<close>

definition fixed_clock :: "int \<Rightarrow> clock" where
  "fixed_clock now = (\<lambda>k. now)"

definition ticking_clock :: clock where
  "ticking_clock = (\<lambda>k. int k * 1000000000)"

text \<open>
  A wallet with six incoming and six outgoing transfers of the same amount with one
  counterparty, all at the same instant; its metrics are computed as \<^verbatim>\<open>handleAnalyze\<close>
  computes them.
\<close>

definition tx_in :: Transaction where
  "tx_in = \<lparr>hash = ''0xh1'', type = incoming, token = ''ETH'', amount = 20000,
     counterparty = ''0xa'', timestamp = 0, gasUsed = 2000000, contractAddress = None,
     from_address = Some ''0xa'', to_address = Some ''0xs''\<rparr>"

definition tx_out :: Transaction where
  "tx_out = \<lparr>hash = ''0xh2'', type = outgoing, token = ''ETH'', amount = 20000,
     counterparty = ''0xa'', timestamp = 0, gasUsed = 2000000, contractAddress = None,
     from_address = Some ''0xs'', to_address = Some ''0xa''\<rparr>"

definition metrics_of :: "Transaction list \<Rightarrow> Metrics" where
  "metrics_of txs = \<lparr>totalTransactions = int (length txs), totalGasSpent = ''0'',
     uniqueCounterparties = int (length (remdups (map counterparty txs))), activeDays = 1,
     contractsInteracted = int (length (remdups (map contractAddress_or_empty txs)))\<rparr>"

definition wallet_of :: "Transaction list \<Rightarrow> WalletData" where
  "wallet_of txs = \<lparr>address = ''0xs'', transactions = txs, tokenBalances = [],
     metrics = metrics_of txs, riskScore = 0, riskLevel = low, wallet_contractsInteracted = [],
     riskBreakdown = None\<rparr>"

definition busy_wallet :: WalletData where
  "busy_wallet = wallet_of (replicate 6 tx_in @ replicate 6 tx_out)"

text \<open>
  The keys of the breakdown literal in its order, the weight of each evaluator in the same
  order, and the breakdown in which one factor has a value and every other factor has 0.
\<close>

definition factor_names :: "string list" where
  "factor_names = [''highFrequency'', ''mixerUsage'', ''scamContract'', ''abnormalGas'',
     ''receivedFromBlacklist'', ''sentToBlacklist'', ''faucetOnly'', ''scamTokens'',
     ''largeInflowOutflow'', ''walletAge'', ''totalTransactions'', ''socialLinks'', ''ogNFTs'',
     ''washTrading'', ''circularTransactions'', ''anomalies'']"






text \<open>A call for which every request fails; four provider results, the first of which threw.\<close>

definition all_failed :: FreeServices where
  "all_failed = \<lparr>ipBlocklist_response = None, phishingDomains_response = None,
     darklist_response = None, ABUSEIPDB_API_KEY = Some ''key'', abuseipdb_cached = None,
     abuseipdb_response = None, scamdb_response = None, starkscan_response = None\<rparr>"

definition provider_elliptic :: PartialThreatLevel where
  "provider_elliptic = \<lparr>risk_opt = Some low, categories_opt = Some [''exchange''],
     confidence_opt = Some (8 / 10), lastUpdated_opt = None, sources_opt = Some [''Elliptic'']\<rparr>"

definition provider_trm :: PartialThreatLevel where
  "provider_trm = \<lparr>risk_opt = Some high, categories_opt = Some [''mixer'', ''exchange''],
     confidence_opt = Some (6 / 10), lastUpdated_opt = None, sources_opt = Some [''TRM Labs'']\<rparr>"

definition provider_community :: PartialThreatLevel where
  "provider_community = \<lparr>risk_opt = Some medium, categories_opt = None,
     confidence_opt = Some 0, lastUpdated_opt = None, sources_opt = Some [''Community DB'']\<rparr>"

definition settled_example :: "PartialThreatLevel PromiseSettledResult list" where
  "settled_example = [rejected ''API key required'', fulfilled provider_elliptic,
     fulfilled provider_trm, fulfilled provider_community]"

text \<open>What the merge reads off the providers that succeeded.\<close>

definition reported_tiers :: "PartialThreatLevel list \<Rightarrow> RiskLevel list" where
  "reported_tiers vs = concat (map (\<lambda>v. case risk_opt v of None \<Rightarrow> [] | Some x \<Rightarrow> [x]) vs)"

definition reported_categories :: "PartialThreatLevel \<Rightarrow> string list" where
  "reported_categories v = (case categories_opt v of None \<Rightarrow> [] | Some c \<Rightarrow> c)"

definition reported_sources :: "PartialThreatLevel \<Rightarrow> string list" where
  "reported_sources v = (case sources_opt v of None \<Rightarrow> [] | Some c \<Rightarrow> c)"

definition positive_confidences :: "PartialThreatLevel list \<Rightarrow> real list" where
  "positive_confidences vs =
     concat (map (\<lambda>v. case confidence_opt v of None \<Rightarrow> [] | Some c \<Rightarrow> if c > 0 then [c] else []) vs)"








subsection \<open>The notions the clustering properties are stated with\<close>





text \<open>
  The adjacency map read as a relation, the map being closed (every neighbour has an
  entry), and the invariants of the two loops.
\<close>

definition nbrs :: "adjacency \<Rightarrow> string \<Rightarrow> string set" where
  "nbrs adj a = (case map_of adj a of None \<Rightarrow> {} | Some ns \<Rightarrow> set ns)"

definition adj_rel :: "adjacency \<Rightarrow> (string \<times> string) set" where
  "adj_rel adj = {(a, b). b \<in> nbrs adj a}"






section \<open>Properties\<close>

subsection \<open>Risk factors and their aggregation\<close>







lemma checkHighFrequency_tick: "snd (checkHighFrequency clk t txs) = Suc t"
  by (simp add: checkHighFrequency_def Date_now_def Let_def)







lemma empty_list_contributions:
  "checkHighFrequency clk t [] = (0, Suc t)" "checkMixerUsage [] = 0"
  "checkScamContractInteraction [] = 0" "checkAbnormalGas [] = 0"
  "checkReceivedFromBlacklist [] = 0" "checkSentToBlacklist [] = 0" "checkFaucetOnly [] = 0"
  "checkScamTokens [] = 0" "checkLargeInflowOutflow [] = 0" "checkWalletAge clk t m [] = (0, t)"
  "checkWashTrading [] = 0" "checkCircularTransactions [] = 0" "checkAnomalies [] = 0"
  by (simp_all add: checkHighFrequency_def Date_now_def checkMixerUsage_def
      checkScamContractInteraction_def checkAbnormalGas_def checkReceivedFromBlacklist_def
      checkSentToBlacklist_def checkFaucetOnly_def checkScamTokens_def
      checkLargeInflowOutflow_def checkWalletAge_def checkWashTrading_def
      checkCircularTransactions_def checkAnomalies_def)

text \<open>
  Claim C7. Every evaluator returns 0 on an empty transaction list (on an empty
  token-balance list for \<^const>\<open>checkScamTokens\<close>), and on the empty wallet, whose metrics
  count its transactions as \<^verbatim>\<open>handleAnalyze\<close> does, \<^const>\<open>aggregateRiskFactors\<close> returns
  the breakdown of sixteen zeros with score 0, after one reading of the clock.
\<close>

theorem C7_empty_inputs:
  "checkHighFrequency clk t [] = (0, Suc t) \<and> checkMixerUsage [] = 0
   \<and> checkScamContractInteraction [] = 0 \<and> checkAbnormalGas [] = 0
   \<and> checkReceivedFromBlacklist [] = 0 \<and> checkSentToBlacklist [] = 0
   \<and> checkFaucetOnly [] = 0 \<and> checkScamTokens [] = 0 \<and> checkLargeInflowOutflow [] = 0
   \<and> checkWalletAge clk t m [] = (0, t) \<and> checkWashTrading [] = 0
   \<and> checkCircularTransactions [] = 0 \<and> checkAnomalies [] = 0
   \<and> (transactions w = [] \<and> tokenBalances w = []
        \<and> totalTransactions (metrics w) = int (length (transactions w))
      \<longrightarrow> aggregateRiskFactors clk t w
            = (\<lparr>score = 0, breakdown = map (\<lambda>k. (k, 0)) factor_names\<rparr>, Suc t))"
  by (simp add: empty_list_contributions aggregateRiskFactors_def factor_names_def
      checkTotalTransactions_def checkSocialLinks_def checkOGNFTs_def)

theorem C7_witness:
  "aggregateRiskFactors ticking_clock 0 (wallet_of [])
     = (\<lparr>score = 0, breakdown = map (\<lambda>k. (k, 0)) factor_names\<rparr>, Suc 0)"
  using C7_empty_inputs [of ticking_clock 0 "metrics_of []" "wallet_of []"]
  by (simp add: wallet_of_def metrics_of_def)

lemma aggregate_depends_on_two_readings:
  "clk' t' = clk t \<Longrightarrow> clk' (Suc t') = clk (Suc t)
   \<Longrightarrow> fst (aggregateRiskFactors clk' t' w) = fst (aggregateRiskFactors clk t w)"
  by (simp add: aggregateRiskFactors_def checkHighFrequency_def checkWalletAge_def Date_now_def
      Let_def split: list.splits)

text \<open>
  Claim C8. With the clock held at one value \<open>now\<close>, running
  \<^const>\<open>aggregateRiskFactors\<close> a second time on the same wallet, after the first run has
  made its readings, returns the same score and breakdown.
\<close>

theorem C8_idempotent:
  "(\<forall>k. clk k = now)
   \<Longrightarrow> fst (aggregateRiskFactors clk (snd (aggregateRiskFactors clk t w)) w)
       = fst (aggregateRiskFactors clk t w)"
  by (rule aggregate_depends_on_two_readings) simp_all

theorem C8_witness:
  "(\<forall>k. fixed_clock 5 k = 5)
   \<and> fst (aggregateRiskFactors (fixed_clock 5) (snd (aggregateRiskFactors (fixed_clock 5) 0 busy_wallet)) busy_wallet)
       = fst (aggregateRiskFactors (fixed_clock 5) 0 busy_wallet)"
  using C8_idempotent [of "fixed_clock 5" 5 0 busy_wallet] by (simp add: fixed_clock_def)

text \<open>
  The clock must be held fixed: between two runs a month apart the wallet stops being
  young and busy.
\<close>

lemma moving_clock_changes_breakdown:
  "fst (aggregateRiskFactors ticking_clock (snd (aggregateRiskFactors ticking_clock 0 busy_wallet)) busy_wallet)
     \<noteq> fst (aggregateRiskFactors ticking_clock 0 busy_wallet)"
  by code_simp







subsection \<open>Threat intelligence\<close>

text \<open>
  Claim C3. The combined level is critical when the tier is critical or the score is at
  least 80, otherwise high when the tier is high or the score is at least 60, otherwise
  medium when the score is at least 30, otherwise low. A critical tier always gives
  critical, a high tier gives high or critical, and the result is never below the level
  \<^const>\<open>calculateRiskLevel\<close> derives from the score alone.
\<close>

theorem C3_combined_level:
  "calculateOverallRiskLevel sc tier =
     (if tier = critical \<or> sc \<ge> 80 then critical
      else if tier = high \<or> sc \<ge> 60 then high
      else if sc \<ge> 30 then medium
      else low)
   \<and> calculateOverallRiskLevel sc critical = critical
   \<and> calculateOverallRiskLevel sc high \<in> {high, critical}
   \<and> (tier \<in> {high, critical} \<longrightarrow> tier_rank tier \<le> tier_rank (calculateOverallRiskLevel sc tier))
   \<and> tier_rank (calculateRiskLevel sc) \<le> tier_rank (calculateOverallRiskLevel sc tier)
   \<and> calculateRiskLevel sc = calculateOverallRiskLevel sc low"
  by (auto simp add: calculateOverallRiskLevel_def calculateRiskLevel_def tier_rank_def)

theorem C3_witness:
  "calculateOverallRiskLevel 0 critical = critical \<and> calculateOverallRiskLevel 0 high = high
   \<and> calculateOverallRiskLevel 45 medium = medium \<and> calculateOverallRiskLevel 10 medium = low
   \<and> calculateOverallRiskLevel 85 low = critical"
  using C3_combined_level [of 0 critical] C3_combined_level [of 0 high]
    C3_combined_level [of 45 medium] C3_combined_level [of 10 medium]
    C3_combined_level [of 85 low]
  by simp

lemma foldl_Set_add_set: "set (foldl Set_add acc xs) = set acc \<union> set xs"
  by (induction xs arbitrary: acc) (auto simp add: Set_add_def)

lemma foldl_Set_add_distinct: "distinct acc \<Longrightarrow> distinct (foldl Set_add acc xs)"
  by (induction xs arbitrary: acc) (auto simp add: Set_add_def)

lemma set_new_Set: "set (new_Set xs) = set xs"
  by (simp add: new_Set_def foldl_Set_add_set)

lemma distinct_new_Set: "distinct (new_Set xs)"
  by (simp add: new_Set_def foldl_Set_add_distinct)

lemma getHighestRisk_upper: "x \<in> set rs \<Longrightarrow> tier_rank x \<le> tier_rank (getHighestRisk rs)"
  by (cases x) (auto simp add: getHighestRisk_def tier_rank_def)

lemma getHighestRisk_member: "rs \<noteq> [] \<Longrightarrow> getHighestRisk rs \<in> set rs"
proof -
  assume "rs \<noteq> []"
  then obtain x where x: "x \<in> set rs" by (cases rs) auto
  have "x \<in> set rs \<Longrightarrow> getHighestRisk rs \<in> set rs"
    by (cases x) (auto simp add: getHighestRisk_def)
  with x show ?thesis by simp
qed

lemma foldl_add_real: "foldl (+) (a::real) xs = a + sum_list xs"
  by (induction xs arbitrary: a) (simp_all add: add.assoc)

lemma filter_positive_confidences:
  "filter (\<lambda>c. c > 0) (map (\<lambda>r. case confidence_opt r of None \<Rightarrow> 0 | Some c \<Rightarrow> c) vs)
     = positive_confidences vs"
  by (induction vs) (auto simp add: positive_confidences_def split: option.splits)

lemma aggregateThreatData_merge:
  assumes "fulfilled_values results \<noteq> []"
  shows "aggregateThreatData now results a =
     \<lparr>risk = getHighestRisk (reported_tiers (fulfilled_values results)),
      categories = new_Set (concat (map reported_categories (fulfilled_values results))),
      confidence = (case positive_confidences (fulfilled_values results) of
                      [] \<Rightarrow> 0
                    | c # cs \<Rightarrow> foldl (+) c cs / real (length (positive_confidences (fulfilled_values results)))),
      lastUpdated = now,
      sources = new_Set (concat (map reported_sources (fulfilled_values results)))\<rparr>"
proof -
  have cats: "(\<lambda>r. case categories_opt r of None \<Rightarrow> [] | Some c \<Rightarrow> c) = reported_categories"
    by (simp add: fun_eq_iff reported_categories_def)
  have srcs: "(\<lambda>r. case sources_opt r of None \<Rightarrow> [] | Some c \<Rightarrow> c) = reported_sources"
    by (simp add: fun_eq_iff reported_sources_def)
  show ?thesis
    using assms
    by (simp add: aggregateThreatData_def Let_def filter_positive_confidences cats srcs
        reported_tiers_def)
qed

text \<open>
  Claim C4. When at least one provider succeeded, the merged verdict has: a tier that no
  reported tier outranks and that one provider reported (low when none reported a tier);
  as categories the union of the providers' tags without duplicates; as confidence the
  mean of the strictly positive confidences reported (0 when there is none); as sources
  the union of the providers' names without duplicates.
\<close>

theorem C4_merged_verdict:
  assumes "fulfilled_values results \<noteq> []"
  shows "(\<forall>x \<in> set (reported_tiers (fulfilled_values results)).
            tier_rank x \<le> tier_rank (risk (aggregateThreatData now results a)))
    \<and> (if reported_tiers (fulfilled_values results) = []
        then risk (aggregateThreatData now results a) = low
        else risk (aggregateThreatData now results a) \<in> set (reported_tiers (fulfilled_values results)))
    \<and> distinct (categories (aggregateThreatData now results a))
    \<and> set (categories (aggregateThreatData now results a))
         = (\<Union>v \<in> set (fulfilled_values results). set (reported_categories v))
    \<and> (if positive_confidences (fulfilled_values results) = []
        then confidence (aggregateThreatData now results a) = 0
        else confidence (aggregateThreatData now results a)
               = sum_list (positive_confidences (fulfilled_values results))
                   / real (length (positive_confidences (fulfilled_values results))))
    \<and> distinct (sources (aggregateThreatData now results a))
    \<and> set (sources (aggregateThreatData now results a))
         = (\<Union>v \<in> set (fulfilled_values results). set (reported_sources v))"
proof -
  let ?vs = "fulfilled_values results"
  let ?r = "aggregateThreatData now results a"
  note eq = aggregateThreatData_merge [OF assms, of now a]
  have "\<forall>x \<in> set (reported_tiers ?vs). tier_rank x \<le> tier_rank (risk ?r)"
    by (simp add: eq getHighestRisk_upper)
  moreover have "if reported_tiers ?vs = [] then risk ?r = low
      else risk ?r \<in> set (reported_tiers ?vs)"
    by (simp add: eq getHighestRisk_member) (simp add: getHighestRisk_def)
  moreover have "distinct (categories ?r)" "distinct (sources ?r)"
    by (simp_all add: eq distinct_new_Set)
  moreover have "set (categories ?r) = (\<Union>v \<in> set ?vs. set (reported_categories v))"
    "set (sources ?r) = (\<Union>v \<in> set ?vs. set (reported_sources v))"
    by (simp_all add: eq set_new_Set)
  moreover have "if positive_confidences ?vs = [] then confidence ?r = 0
      else confidence ?r = sum_list (positive_confidences ?vs) / real (length (positive_confidences ?vs))"
    by (cases "positive_confidences ?vs") (simp_all add: eq foldl_add_real)
  ultimately show ?thesis by simp
qed

theorem C4_witness:
  "fulfilled_values settled_example \<noteq> []
   \<and> risk (aggregateThreatData 0 settled_example ''0xabc'') = high
   \<and> categories (aggregateThreatData 0 settled_example ''0xabc'') = [''exchange'', ''mixer'']
   \<and> confidence (aggregateThreatData 0 settled_example ''0xabc'') = 7 / 10
   \<and> sources (aggregateThreatData 0 settled_example ''0xabc'')
        = [''Elliptic'', ''TRM Labs'', ''Community DB'']"
proof -
  have ne: "fulfilled_values settled_example \<noteq> []"
    by (simp add: settled_example_def fulfilled_values_def)
  have "risk (aggregateThreatData 0 settled_example ''0xabc'') = high"
    "categories (aggregateThreatData 0 settled_example ''0xabc'') = [''exchange'', ''mixer'']"
    "sources (aggregateThreatData 0 settled_example ''0xabc'')
        = [''Elliptic'', ''TRM Labs'', ''Community DB'']"
    by code_simp+
  moreover have "confidence (aggregateThreatData 0 settled_example ''0xabc'') = 7 / 10"
    using C4_merged_verdict [OF ne, of 0 "''0xabc''"]
    by (simp add: settled_example_def fulfilled_values_def positive_confidences_def
        provider_elliptic_def provider_trm_def provider_community_def)
  ultimately show ?thesis using ne by simp
qed

text \<open>
  With every request failing, the sources of the verdict of \<^const>\<open>analyzeAddress\<close> are
  empty.
\<close>

theorem C5_counterexample:
  "verdict_sources (analyzeAddress all_failed ''0xabc'') = []
   \<and> verdict_sources (analyzeAddress all_failed ''0xabc'') \<noteq> [''Static Analysis'']
   \<and> verdict_confidence (analyzeAddress all_failed ''0xabc'') = 3 / 10"
  by (simp add: analyzeAddress_def all_failed_def fetchThreatLists_def truthy_def
      checkWithAbuseIPDB_def checkWithScamDatabase_def checkStarknetAddress_def)

text \<open>
  Claim C5, amended. When every request fails, \<^const>\<open>analyzeAddress\<close> returns a verdict
  with no source, confidence 0.3, level low and score 0. The verdict with the single
  source "Static Analysis" and confidence 0.3 is the one \<^const>\<open>aggregateThreatData\<close>
  returns when no provider result is fulfilled.
\<close>

theorem C5_fallback:
  "(ipBlocklist_response svc = None \<and> phishingDomains_response svc = None
      \<and> darklist_response svc = None \<and> abuseipdb_cached svc = None
      \<and> abuseipdb_response svc = None \<and> scamdb_response svc = None
      \<and> starkscan_response svc = None
    \<longrightarrow> analyzeAddress svc a =
          \<lparr>verdict_riskScore = 0, verdict_riskLevel = low, verdict_sources = [],
           verdict_findings = [''No immediate threats detected''],
           verdict_confidence = 3 / 10\<rparr>)
   \<and> (fulfilled_values results = []
       \<longrightarrow> sources (aggregateThreatData now results a) = [''Static Analysis'']
           \<and> confidence (aggregateThreatData now results a) = 3 / 10)"
  by (simp add: analyzeAddress_def fetchThreatLists_def checkWithAbuseIPDB_def
      checkWithScamDatabase_def checkStarknetAddress_def calculateRiskLevel_def truthy_def
      aggregateThreatData_def getFallbackThreatLevel_def Let_def split: option.splits)

theorem C5_witness:
  "analyzeAddress all_failed ''0x0000dead'' =
     \<lparr>verdict_riskScore = 0, verdict_riskLevel = low, verdict_sources = [],
      verdict_findings = [''No immediate threats detected''], verdict_confidence = 3 / 10\<rparr>
   \<and> sources (aggregateThreatData 0 [rejected ''API key required'', rejected ''timeout''] ''0x0000dead'')
        = [''Static Analysis'']
   \<and> confidence (aggregateThreatData 0 [rejected ''API key required'', rejected ''timeout''] ''0x0000dead'')
        = 3 / 10"
  using C5_fallback [of all_failed "''0x0000dead''" "[rejected ''API key required'', rejected ''timeout'']" 0]
  by (simp add: all_failed_def fulfilled_values_def)

subsection \<open>Clustering\<close>














lemma nbrs_adj_rel: "nbrs adj a = adj_rel adj `` {a}"
  by (auto simp add: adj_rel_def)






















end
